theory Spec2Isabelle
  imports Main
begin

section \<open>Data model (main.py, lines 41-70)\<close>

text \<open>
  The three mapped classes of main.py. Primary keys are Python integers; a foreign-key
  column is nullable (no \<open>nullable=False\<close> on \<open>author_id\<close> or \<open>post_id\<close>), so
  it is an \<open>int option\<close> with \<open>None\<close> for SQL NULL. The string columns are
  filled from form fields, which are strings.
\<close>

record user =
  user_id :: int
  user_email :: string
  user_password :: string
  user_name :: string

record blog_post =
  post_id :: int
  post_author_id :: "int option"
  post_title :: string
  post_subtitle :: string
  post_date :: string
  post_body :: string
  post_img_url :: string

record comment =
  comment_id :: int
  comment_author_id :: "int option"
  comment_post_id :: "int option"
  comment_body :: string

text \<open>
  The store holds the three tables in insertion order. What a request sees beyond the
  store is its signed session cookie: the logged-in user id that \<open>login_user\<close> put
  there (if any) and the flash messages queued for the next page.
\<close>

record database =
  users :: "user list"
  blog_posts :: "blog_post list"
  comments :: "comment list"

record state =
  db :: database
  session :: "int option"
  flashes :: "string list"

definition empty_db :: database where
  "empty_db = \<lparr>users = [], blog_posts = [], comments = []\<rparr>"

text \<open>
  Exceptions that leave a handler and are not turned into a response by the handler
  itself. \<open>abort(403)\<close> is not among them: Flask answers it with the 403 page, so it
  is a response.
\<close>

datatype error =
  AttributeError | UnmappedInstanceError | IntegrityError | OverflowError | SMTPException

datatype endpoint = Login_page | Get_all_posts_page | Show_post_page int

datatype template =
    Index_html "blog_post list"
  | Register_html
  | Login_html
  | Post_html "blog_post option" "comment list"
  | Make_post_html bool
  | About_html
  | Contact_html bool

datatype response = Render template | Redirect endpoint | Abort nat

type_synonym outcome = "error + response \<times> state"

section \<open>Forms and the clock\<close>

text \<open>
  The form classes live in forms.py; a handler only reads the fields below, and only
  after \<open>validate_on_submit()\<close> returned true. A handler therefore takes
  \<open>Some form\<close> for a submitted form that validated and \<open>None\<close> for a GET or
  a rejected submission.
\<close>

record register_form =
  reg_email :: string
  reg_password :: string
  reg_name :: string

record login_form =
  login_email :: string
  login_password :: string

record create_post_form =
  form_title :: string
  form_subtitle :: string
  form_img_url :: string
  form_body :: string

datatype month =
    January | February | March | April | May | June
  | July | August | September | October | November | December

record datetime =
  dt_year :: nat
  dt_month :: month
  dt_day :: nat

fun month_name :: "month \<Rightarrow> string" where
  "month_name January = ''January''"
| "month_name February = ''February''"
| "month_name March = ''March''"
| "month_name April = ''April''"
| "month_name May = ''May''"
| "month_name June = ''June''"
| "month_name July = ''July''"
| "month_name August = ''August''"
| "month_name September = ''September''"
| "month_name October = ''October''"
| "month_name November = ''November''"
| "month_name December = ''December''"

definition digit_char :: "nat \<Rightarrow> char" where
  "digit_char n = ''0123456789'' ! (n mod 10)"

fun decimal :: "nat \<Rightarrow> string" where
  "decimal n = (if n < 10 then [digit_char n] else decimal (n div 10) @ [digit_char n])"

declare decimal.simps [simp del]

definition two_digits :: "nat \<Rightarrow> string" where
  "two_digits n = [digit_char (n div 10), digit_char n]"

text \<open>
  \<open>today.strftime('%B %d, %Y')\<close>: the full month name, the day of the month padded
  to two digits, and the year in decimal.
\<close>

definition strftime_B_d_Y :: "datetime \<Rightarrow> string" where
  "strftime_B_d_Y today =
     month_name (dt_month today) @ '' '' @ two_digits (dt_day today) @ '', '' @ decimal (dt_year today)"

section \<open>The store's queries\<close>

text \<open>
  A new row gets the key one above the largest key of its table, 1 in an empty table
  (an integer primary key of the default single-file store).
\<close>

definition next_id :: "int list \<Rightarrow> int" where
  "next_id ids = (case ids of [] \<Rightarrow> 1 | x # xs \<Rightarrow> fold max xs x + 1)"

text \<open>\<open>User.query.get(int(user_id))\<close>, the user loader of the login manager.\<close>

definition load_user :: "database \<Rightarrow> int \<Rightarrow> user option" where
  "load_user d uid = find (\<lambda>u. user_id u = uid) (users d)"

text \<open>\<open>User.query.filter_by(email=...).first()\<close>\<close>

definition first_by_email :: "database \<Rightarrow> string \<Rightarrow> user option" where
  "first_by_email d e = find (\<lambda>u. user_email u = e) (users d)"

text \<open>
  \<open>BlogPost.query.get(post_id)\<close>. The default store keeps a key as a signed 64-bit
  integer: a key outside that range cannot be handed to the store as a query
  parameter, and the call raises OverflowError. No stored row has such a key, so this
  happens only when no row is found; a key in range with no row gives \<open>None\<close>.
\<close>

definition key_in_range :: "int \<Rightarrow> bool" where
  "key_in_range k = (- (2 ^ 63) \<le> k \<and> k < 2 ^ 63)"

definition find_post :: "database \<Rightarrow> int \<Rightarrow> blog_post option" where
  "find_post d pid = find (\<lambda>p. post_id p = pid) (blog_posts d)"

definition get_post :: "database \<Rightarrow> int \<Rightarrow> error + blog_post option" where
  "get_post d pid =
     (case find_post d pid of
        Some p \<Rightarrow> Inr (Some p)
      | None \<Rightarrow> if key_in_range pid then Inr None else Inl OverflowError)"

section \<open>Identity\<close>

text \<open>
  \<open>current_user\<close> is the row the user loader finds for the id in the session, and
  the login library's anonymous object otherwise. The anonymous object has
  \<open>is_authenticated = False\<close> and no attribute \<open>id\<close>.
\<close>

datatype identity = Anonymous | Authenticated user

definition current_user :: "state \<Rightarrow> identity" where
  "current_user s =
     (case session s of
        None \<Rightarrow> Anonymous
      | Some uid \<Rightarrow> (case load_user (db s) uid of None \<Rightarrow> Anonymous | Some u \<Rightarrow> Authenticated u))"

fun is_authenticated :: "identity \<Rightarrow> bool" where
  "is_authenticated Anonymous = False"
| "is_authenticated (Authenticated u) = True"

definition flash :: "string \<Rightarrow> state \<Rightarrow> state" where
  "flash msg s = s\<lparr>flashes := flashes s @ [msg]\<rparr>"

definition login_user :: "user \<Rightarrow> state \<Rightarrow> state" where
  "login_user u s = s\<lparr>session := Some (user_id u)\<rparr>"

definition logout_user :: "state \<Rightarrow> state" where
  "logout_user s = s\<lparr>session := None\<rparr>"

section \<open>The admin-only decorator (main.py, lines 75-81)\<close>

text \<open>
  \<open>if current_user.id != 1: return abort(403)\<close>, then the wrapped function. Reading
  \<open>.id\<close> of the anonymous object raises AttributeError before the comparison.
\<close>

definition admin_only :: "(state \<Rightarrow> outcome) \<Rightarrow> state \<Rightarrow> outcome" where
  "admin_only function_x s =
     (case current_user s of
        Anonymous \<Rightarrow> Inl AttributeError
      | Authenticated u \<Rightarrow>
          if user_id u \<noteq> 1 then Inr (Abort 403, s) else function_x s)"

section \<open>Request handlers\<close>

definition get_all_posts :: "state \<Rightarrow> outcome" where
  "get_all_posts s = Inr (Render (Index_html (blog_posts (db s))), s)"

text \<open>
  register (lines 92-119). The password hasher is the library's
  \<open>generate_password_hash\<close>; it is a parameter, applied to the salt it drew for this
  call and to the plaintext.
\<close>

definition register ::
  "(string \<Rightarrow> string \<Rightarrow> string) \<Rightarrow> register_form option \<Rightarrow> string \<Rightarrow> state \<Rightarrow> outcome" where
  "register generate_password_hash form salt s =
     (case form of
        None \<Rightarrow> Inr (Render Register_html, s)
      | Some f \<Rightarrow>
          (case first_by_email (db s) (reg_email f) of
             Some u \<Rightarrow>
               Inr (Redirect Login_page,
                    flash ''You've already signed up with that email, log in instead!'' s)
           | None \<Rightarrow>
               (let new_user = \<lparr>user_id = next_id (map user_id (users (db s))),
                                user_email = reg_email f,
                                user_password = generate_password_hash salt (reg_password f),
                                user_name = reg_name f\<rparr>;
                    s1 = s\<lparr>db := (db s)\<lparr>users := users (db s) @ [new_user]\<rparr>\<rparr>
                in Inr (Redirect Get_all_posts_page, login_user new_user s1))))"

text \<open>login (lines 122-139), with the library's \<open>check_password_hash\<close> as parameter.\<close>

definition login ::
  "(string \<Rightarrow> string \<Rightarrow> bool) \<Rightarrow> login_form option \<Rightarrow> state \<Rightarrow> outcome" where
  "login check_password_hash form s =
     (case form of
        None \<Rightarrow> Inr (Render Login_html, s)
      | Some f \<Rightarrow>
          (case first_by_email (db s) (login_email f) of
             Some u \<Rightarrow>
               if check_password_hash (user_password u) (login_password f)
               then Inr (Redirect Get_all_posts_page, login_user u s)
               else Inr (Redirect Login_page, flash ''Password incorrect, please try again'' s)
           | None \<Rightarrow>
               Inr (Redirect Login_page, flash ''That email does not exist, please try again'' s)))"

definition logout :: "state \<Rightarrow> outcome" where
  "logout s = Inr (Redirect Get_all_posts_page, logout_user s)"

text \<open>
  show_post (lines 148-172). The loop keeps the last post whose id equals the path
  index, and leaves \<open>None\<close> when there is none. The comment list handed to the
  template was read before the new comment is added.
\<close>

definition requested_post :: "database \<Rightarrow> int \<Rightarrow> blog_post option" where
  "requested_post d index =
     fold (\<lambda>post found. if post_id post = index then Some post else found) (blog_posts d) None"

definition show_post :: "int \<Rightarrow> string option \<Rightarrow> state \<Rightarrow> outcome" where
  "show_post index form s =
     (let requested = requested_post (db s) index;
          listed = comments (db s)
      in case form of
           None \<Rightarrow> Inr (Render (Post_html requested listed), s)
         | Some body \<Rightarrow>
             (case current_user s of
                Anonymous \<Rightarrow>
                  Inr (Redirect Login_page, flash ''YOu need to login or register to comment'' s)
              | Authenticated u \<Rightarrow>
                  (let new_comment = \<lparr>comment_id = next_id (map comment_id (comments (db s))),
                                      comment_author_id = Some (user_id u),
                                      comment_post_id = map_option post_id requested,
                                      comment_body = body\<rparr>
                   in Inr (Render (Post_html requested listed),
                           s\<lparr>db := (db s)\<lparr>comments := comments (db s) @ [new_comment]\<rparr>\<rparr>))))"

text \<open>
  new_post (lines 175-193). \<open>title\<close> is declared \<open>unique=True\<close>: the commit of a
  row whose title another row has raises IntegrityError and stores nothing. Handing
  the anonymous object to the \<open>author\<close> relationship raises AttributeError.
\<close>

definition new_post_body :: "create_post_form option \<Rightarrow> datetime \<Rightarrow> state \<Rightarrow> outcome" where
  "new_post_body form today s =
     (case form of
        None \<Rightarrow> Inr (Render (Make_post_html False), s)
      | Some f \<Rightarrow>
          (case current_user s of
             Anonymous \<Rightarrow> Inl AttributeError
           | Authenticated u \<Rightarrow>
               (let new_blog = \<lparr>post_id = next_id (map post_id (blog_posts (db s))),
                                post_author_id = Some (user_id u),
                                post_title = form_title f,
                                post_subtitle = form_subtitle f,
                                post_date = strftime_B_d_Y today,
                                post_body = form_body f,
                                post_img_url = form_img_url f\<rparr>
                in if list_ex (\<lambda>p. post_title p = form_title f) (blog_posts (db s))
                   then Inl IntegrityError
                   else Inr (Redirect Get_all_posts_page,
                             s\<lparr>db := (db s)\<lparr>blog_posts := blog_posts (db s) @ [new_blog]\<rparr>\<rparr>))))"

definition new_post :: "create_post_form option \<Rightarrow> datetime \<Rightarrow> state \<Rightarrow> outcome" where
  "new_post form today = admin_only (new_post_body form today)"

text \<open>
  edit_post (lines 196-215). An exception of the lookup leaves the handler. The
  fields of the fetched row are read to fill the form before anything else, so a
  missing row raises AttributeError. The update is the
  row's title, subtitle, body and image URL; the commit raises IntegrityError when
  another row already has the new title.
\<close>

definition edit_row :: "create_post_form \<Rightarrow> blog_post \<Rightarrow> blog_post" where
  "edit_row f p = p\<lparr>post_title := form_title f,
                     post_subtitle := form_subtitle f,
                     post_body := form_body f,
                     post_img_url := form_img_url f\<rparr>"

definition edit_post_body :: "int \<Rightarrow> create_post_form option \<Rightarrow> state \<Rightarrow> outcome" where
  "edit_post_body pid form s =
     (case get_post (db s) pid of
        Inl e \<Rightarrow> Inl e
      | Inr None \<Rightarrow> Inl AttributeError
      | Inr (Some post) \<Rightarrow>
          (case form of
             None \<Rightarrow> Inr (Render (Make_post_html True), s)
           | Some f \<Rightarrow>
               if list_ex (\<lambda>p. post_id p \<noteq> pid \<and> post_title p = form_title f) (blog_posts (db s))
               then Inl IntegrityError
               else Inr (Redirect (Show_post_page pid),
                         s\<lparr>db := (db s)\<lparr>blog_posts :=
                              map (\<lambda>p. if post_id p = pid then edit_row f p else p)
                                  (blog_posts (db s))\<rparr>\<rparr>)))"

definition edit_post :: "int \<Rightarrow> create_post_form option \<Rightarrow> state \<Rightarrow> outcome" where
  "edit_post pid form = admin_only (edit_post_body pid form)"

text \<open>
  delete (lines 217-223). An exception of the lookup leaves the handler;
  \<open>db.session.delete(None)\<close> raises UnmappedInstanceError.
  The \<open>comments\<close> relationship of a post has the default cascade, so deleting the
  post sets the \<open>post_id\<close> of its comments to NULL and keeps the comment rows.
\<close>

definition detach_comment :: "int \<Rightarrow> comment \<Rightarrow> comment" where
  "detach_comment pid c =
     (if comment_post_id c = Some pid then c\<lparr>comment_post_id := None\<rparr> else c)"

definition delete_body :: "int \<Rightarrow> state \<Rightarrow> outcome" where
  "delete_body pid s =
     (case get_post (db s) pid of
        Inl e \<Rightarrow> Inl e
      | Inr None \<Rightarrow> Inl UnmappedInstanceError
      | Inr (Some post_to_delete) \<Rightarrow>
          Inr (Redirect Get_all_posts_page,
               s\<lparr>db := (db s)\<lparr>blog_posts := filter (\<lambda>p. post_id p \<noteq> pid) (blog_posts (db s)),
                               comments := map (detach_comment pid) (comments (db s))\<rparr>\<rparr>))"

definition delete :: "int \<Rightarrow> state \<Rightarrow> outcome" where
  "delete pid = admin_only (delete_body pid)"

definition about :: "state \<Rightarrow> outcome" where
  "about s = Inr (Render About_html, s)"

text \<open>
  contact (lines 233-249). A POST reads four keys of the submitted form (a missing key
  is answered with 400), then sends one mail; whether the mail server accepts it is an
  input. Nothing of the store or the session is touched.
\<close>

definition contact :: "(string \<times> string) list option \<Rightarrow> bool \<Rightarrow> state \<Rightarrow> outcome" where
  "contact form smtp_ok s =
     (case form of
        None \<Rightarrow> Inr (Render (Contact_html False), s)
      | Some data \<Rightarrow>
          if list_ex (\<lambda>k. map_of data k = None) [''nam'', ''emai'', ''phon'', ''messag'']
          then Inr (Abort 400, s)
          else if smtp_ok then Inr (Render (Contact_html True), s)
          else Inl SMTPException)"

section \<open>Sequences of requests\<close>

datatype request =
    Get_all_posts
  | Register "register_form option" string
  | Login "login_form option"
  | Logout
  | Show_post int "string option"
  | New_post "create_post_form option" datetime
  | Edit_post int "create_post_form option"
  | Delete int
  | About
  | Contact "(string \<times> string) list option" bool

fun handle ::
  "(string \<Rightarrow> string \<Rightarrow> string) \<Rightarrow> (string \<Rightarrow> string \<Rightarrow> bool) \<Rightarrow> request \<Rightarrow> state \<Rightarrow> outcome" where
  "handle gen chk Get_all_posts s = get_all_posts s"
| "handle gen chk (Register form salt) s = register gen form salt s"
| "handle gen chk (Login form) s = login chk form s"
| "handle gen chk Logout s = logout s"
| "handle gen chk (Show_post index form) s = show_post index form s"
| "handle gen chk (New_post form today) s = new_post form today s"
| "handle gen chk (Edit_post pid form) s = edit_post pid form s"
| "handle gen chk (Delete pid) s = delete pid s"
| "handle gen chk About s = about s"
| "handle gen chk (Contact form smtp_ok) s = contact form smtp_ok s"

text \<open>
  One request of some client: the handler runs on the store with that client's
  session; a request that ends in an unhandled exception commits nothing.
\<close>

definition step ::
  "(string \<Rightarrow> string \<Rightarrow> string) \<Rightarrow> (string \<Rightarrow> string \<Rightarrow> bool) \<Rightarrow>
   int option \<times> request \<Rightarrow> database \<Rightarrow> database" where
  "step gen chk ev d =
     (case handle gen chk (snd ev) \<lparr>db = d, session = fst ev, flashes = []\<rparr> of
        Inl e \<Rightarrow> d
      | Inr (r, s') \<Rightarrow> db s')"

definition run ::
  "(string \<Rightarrow> string \<Rightarrow> string) \<Rightarrow> (string \<Rightarrow> string \<Rightarrow> bool) \<Rightarrow>
   (int option \<times> request) list \<Rightarrow> database \<Rightarrow> database" where
  "run gen chk evs d = fold (step gen chk) evs d"

section \<open>Referential integrity\<close>

text \<open>
  A comment's author (or post) reference is resolved when exactly one row of the user
  (or post) table has the referenced key. \<open>comments_resolved\<close> asks this of both
  references of every comment; \<open>comments_attached\<close> allows a NULL post reference.
  \<open>store_inv\<close> is the invariant the handlers keep: primary keys are distinct and
  every comment's references, where not NULL, are keys of their tables, the author
  reference never being NULL.
\<close>

definition author_resolved :: "database \<Rightarrow> comment \<Rightarrow> bool" where
  "author_resolved d c =
     (case comment_author_id c of
        None \<Rightarrow> False
      | Some uid \<Rightarrow> length (filter (\<lambda>u. user_id u = uid) (users d)) = 1)"

definition post_resolved :: "database \<Rightarrow> comment \<Rightarrow> bool" where
  "post_resolved d c =
     (case comment_post_id c of
        None \<Rightarrow> False
      | Some pid \<Rightarrow> length (filter (\<lambda>p. post_id p = pid) (blog_posts d)) = 1)"

definition post_null_or_resolved :: "database \<Rightarrow> comment \<Rightarrow> bool" where
  "post_null_or_resolved d c =
     (case comment_post_id c of
        None \<Rightarrow> True
      | Some pid \<Rightarrow> length (filter (\<lambda>p. post_id p = pid) (blog_posts d)) = 1)"

definition comments_resolved :: "database \<Rightarrow> bool" where
  "comments_resolved d = list_all (\<lambda>c. author_resolved d c \<and> post_resolved d c) (comments d)"

definition comments_attached :: "database \<Rightarrow> bool" where
  "comments_attached d =
     list_all (\<lambda>c. author_resolved d c \<and> post_null_or_resolved d c) (comments d)"

definition comment_ref_ok :: "int set \<Rightarrow> int set \<Rightarrow> comment \<Rightarrow> bool" where
  "comment_ref_ok us ps c =
     ((case comment_author_id c of None \<Rightarrow> False | Some uid \<Rightarrow> uid \<in> us) \<and>
      (case comment_post_id c of None \<Rightarrow> True | Some pid \<Rightarrow> pid \<in> ps))"

definition store_inv :: "database \<Rightarrow> bool" where
  "store_inv d =
     (distinct (map user_id (users d)) \<and> distinct (map post_id (blog_posts d)) \<and>
      list_all (comment_ref_ok (user_id ` set (users d)) (post_id ` set (blog_posts d))) (comments d))"


section \<open>Sample data\<close>

text \<open>
  A stand-in for the library's pair of hash functions and a small store, used to run the
  handlers on concrete inputs. The stand-in check accepts exactly the digests the
  stand-in generator makes from the same plaintext.
\<close>

definition toy_hash :: "string \<Rightarrow> string \<Rightarrow> string" where
  "toy_hash salt p = p @ ''$'' @ salt"

definition toy_check :: "string \<Rightarrow> string \<Rightarrow> bool" where
  "toy_check h p = (take (length p + 1) h = p @ ''$'')"

definition admin_row :: user where
  "admin_row = \<lparr>user_id = 1, user_email = ''a@x.com'',
                 user_password = toy_hash ''ab12'' ''pw1'', user_name = ''Alice''\<rparr>"

definition bob_row :: user where
  "bob_row = \<lparr>user_id = 2, user_email = ''b@x.com'',
               user_password = toy_hash ''cd34'' ''pw2'', user_name = ''Bob''\<rparr>"

definition post_T :: blog_post where
  "post_T = \<lparr>post_id = 1, post_author_id = Some 1, post_title = ''T'', post_subtitle = ''S'',
              post_date = ''March 05, 2024'', post_body = ''B'', post_img_url = ''http://x/i.png''\<rparr>"

definition post_U :: blog_post where
  "post_U = \<lparr>post_id = 2, post_author_id = Some 1, post_title = ''U'', post_subtitle = ''S2'',
              post_date = ''March 06, 2024'', post_body = ''B2'', post_img_url = ''http://x/j.png''\<rparr>"

definition post_T2 :: blog_post where
  "post_T2 = \<lparr>post_id = 3, post_author_id = Some 1, post_title = ''T2'', post_subtitle = ''S3'',
               post_date = ''March 05, 2024'', post_body = ''B3'', post_img_url = ''http://x/k.png''\<rparr>"

definition sample_db :: database where
  "sample_db = \<lparr>users = [admin_row, bob_row], blog_posts = [post_T, post_U], comments = []\<rparr>"

definition admin_state :: state where
  "admin_state = \<lparr>db = sample_db, session = Some 1, flashes = []\<rparr>"

definition bob_state :: state where
  "bob_state = \<lparr>db = sample_db, session = Some 2, flashes = []\<rparr>"

definition anon_state :: state where
  "anon_state = \<lparr>db = sample_db, session = None, flashes = []\<rparr>"

definition form_T2 :: create_post_form where
  "form_T2 = \<lparr>form_title = ''T2'', form_subtitle = ''S3'', form_img_url = ''http://x/k.png'',
               form_body = ''B3''\<rparr>"

definition day_one :: datetime where
  "day_one = \<lparr>dt_year = 2024, dt_month = March, dt_day = 5\<rparr>"

definition reg_form :: register_form where
  "reg_form = \<lparr>reg_email = ''a@x.com'', reg_password = ''pw1'', reg_name = ''Alice''\<rparr>"


definition sample_trace :: "(int option \<times> request) list" where
  "sample_trace = [(None, Register (Some reg_form) ''ab12''), (Some 1, Show_post 7 (Some ''hi''))]"


definition post_one :: blog_post where
  "post_one = \<lparr>post_id = 1, post_author_id = Some 1, post_title = ''T2'', post_subtitle = ''S3'',
               post_date = ''March 05, 2024'', post_body = ''B3'', post_img_url = ''http://x/k.png''\<rparr>"

definition comment_one :: comment where
  "comment_one = \<lparr>comment_id = 1, comment_author_id = Some 1, comment_post_id = Some 1,
                  comment_body = ''hi''\<rparr>"

definition commented_db :: database where
  "commented_db = \<lparr>users = [admin_row], blog_posts = [post_one], comments = [comment_one]\<rparr>"

definition delete_trace :: "(int option \<times> request) list" where
  "delete_trace =
     [(None, Register (Some reg_form) ''ab12''),
      (Some 1, New_post (Some form_T2) day_one),
      (Some 1, Show_post 1 (Some ''hi'')),
      (Some 1, Delete 1)]"


lemmas sample_defs =
  toy_hash_def toy_check_def admin_row_def bob_row_def post_T_def post_U_def sample_db_def
  admin_state_def bob_state_def anon_state_def form_T2_def day_one_def post_T2_def

section \<open>Facts about the queries\<close>

lemma first_by_email_none:
  "(first_by_email d e = None) = (\<forall>u\<in>set (users d). user_email u \<noteq> e)"
  by (auto simp: first_by_email_def find_None_iff)

lemma find_post_none:
  "(find_post d pid = None) = (\<forall>p\<in>set (blog_posts d). post_id p \<noteq> pid)"
  by (auto simp: find_post_def find_None_iff)

lemma get_post_found: "find_post d pid = Some p \<Longrightarrow> get_post d pid = Inr (Some p)"
  by (simp add: get_post_def)

lemma get_post_absent:
  "find_post d pid = None \<Longrightarrow>
   get_post d pid = (if key_in_range pid then Inr None else Inl OverflowError)"
  by (simp add: get_post_def)

lemma get_post_some:
  "pid \<in> post_id ` set (blog_posts d) \<Longrightarrow> \<exists>p. get_post d pid = Inr (Some p)"
proof -
  assume "pid \<in> post_id ` set (blog_posts d)"
  then have "find_post d pid \<noteq> None" by (auto simp: find_post_none)
  then show ?thesis by (auto simp: get_post_def)
qed

lemma fold_max_ge:
  "(a::int) \<le> fold max xs a \<and> (\<forall>x\<in>set xs. x \<le> fold max xs a)"
proof (induction xs arbitrary: a)
  case Nil
  show ?case by simp
next
  case (Cons y ys)
  have "max y a \<le> fold max ys (max y a)" using Cons.IH by blast
  moreover have "\<forall>x\<in>set ys. x \<le> fold max ys (max y a)" using Cons.IH by blast
  ultimately show ?case by auto
qed

lemma next_id_fresh: "next_id ids \<notin> set ids"
proof (cases ids)
  case Nil
  then show ?thesis by simp
next
  case (Cons x xs)
  have "\<forall>y\<in>set (x # xs). y < fold max xs x + 1"
    using fold_max_ge[of x xs] by auto
  then show ?thesis using Cons by (auto simp: next_id_def)
qed

lemma requested_fold:
  "map_option post_id (fold (\<lambda>post found. if post_id post = index then Some post else found) ps acc)
     = (if index \<in> post_id ` set ps then Some index else map_option post_id acc)"
  by (induction ps arbitrary: acc) auto

lemma requested_post_id:
  "map_option post_id (requested_post d index)
     = (if index \<in> post_id ` set (blog_posts d) then Some index else None)"
  by (simp add: requested_post_def requested_fold)

lemma requested_post_none:
  "(requested_post d index = None) = (index \<notin> post_id ` set (blog_posts d))"
  using requested_post_id[of d index] by (auto split: if_splits)

lemma get_post_fresh_append:
  assumes "pid \<notin> post_id ` set ps" and "post_id p = pid"
  shows "find (\<lambda>q. post_id q = pid) (ps @ [p]) = Some p"
  using assms by (induction ps) auto

lemma current_user_db_cong:
  "users (db s') = users (db s) \<Longrightarrow> session s' = session s \<Longrightarrow> current_user s' = current_user s"
  by (simp add: current_user_def load_user_def split: option.splits)

section \<open>The decorator\<close>

lemma admin_only_forbidden:
  "current_user s = Authenticated u \<Longrightarrow> user_id u \<noteq> 1 \<Longrightarrow>
   admin_only function_x s = Inr (Abort 403, s)"
  by (simp add: admin_only_def)

lemma admin_only_admin:
  "current_user s = Authenticated u \<Longrightarrow> user_id u = 1 \<Longrightarrow>
   admin_only function_x s = function_x s"
  by (simp add: admin_only_def)

lemma admin_only_anonymous:
  "current_user s = Anonymous \<Longrightarrow> admin_only function_x s = Inl AttributeError"
  by (simp add: admin_only_def)

lemma current_user_admin_state: "current_user admin_state = Authenticated admin_row"
  by (simp add: current_user_def load_user_def sample_defs)

lemma current_user_bob_state: "current_user bob_state = Authenticated bob_row"
  by (simp add: current_user_def load_user_def sample_defs)

lemma current_user_anon_state: "current_user anon_state = Anonymous"
  by (simp add: current_user_def sample_defs)

lemma admin_state_admin: "current_user admin_state = Authenticated admin_row \<and> user_id admin_row = 1"
  by (simp add: current_user_admin_state) (simp add: sample_defs)

lemma strftime_day_one: "strftime_B_d_Y day_one = ''March 05, 2024''"
  unfolding day_one_def by code_simp

lemma new_post_admin_state:
  "new_post (Some form_T2) day_one admin_state =
     Inr (Redirect Get_all_posts_page,
          admin_state\<lparr>db := (db admin_state)\<lparr>blog_posts := [post_T, post_U, post_T2]\<rparr>\<rparr>)"
  by (simp add: new_post_def admin_only_def new_post_body_def current_user_admin_state
      strftime_day_one)
     (simp add: sample_defs next_id_def)

text \<open>
  C1: a request without a logged-in user to new-post, edit-post or delete-post is not
  answered with 403. The decorator reads \<open>current_user.id\<close> of the anonymous
  identity, and the request ends in AttributeError, whatever the store holds and
  whatever the request carries. (A logged-in user other than user 1 does get the 403
  and an unchanged state: \<open>admin_only_forbidden\<close>.)
\<close>

theorem anonymous_admin_route_raises:
  "new_post form today (s\<lparr>session := None\<rparr>) = Inl AttributeError \<and>
   edit_post pid form (s\<lparr>session := None\<rparr>) = Inl AttributeError \<and>
   delete pid (s\<lparr>session := None\<rparr>) = Inl AttributeError"
  by (simp add: new_post_def edit_post_def delete_def admin_only_def current_user_def)

section \<open>Registration and login\<close>

text \<open>
  C4: when a user with the submitted email exists, a registration POST returns the
  redirect to the login page and a state that differs from the old one only by the
  duplicate-email message appended to the flash queue: the user table, the rest of the
  store and the session are the old ones.
\<close>

theorem register_duplicate_email:
  assumes "u \<in> set (users (db s))" and "user_email u = reg_email f"
  shows "register gen (Some f) salt s =
           Inr (Redirect Login_page,
                s\<lparr>flashes := flashes s @
                     [''You've already signed up with that email, log in instead!'']\<rparr>)"
proof -
  from assms have "first_by_email (db s) (reg_email f) \<noteq> None"
    by (auto simp: first_by_email_none)
  then obtain v where "first_by_email (db s) (reg_email f) = Some v" by auto
  then show ?thesis by (simp add: register_def flash_def)
qed

theorem register_duplicate_email_witness:
  "register toy_hash (Some \<lparr>reg_email = ''b@x.com'', reg_password = ''other'', reg_name = ''Bobby''\<rparr>)
      ''zz99'' anon_state =
     Inr (Redirect Login_page,
          anon_state\<lparr>flashes := [''You've already signed up with that email, log in instead!'']\<rparr>)"
proof -
  have h1: "bob_row \<in> set (users (db anon_state))" by (simp add: sample_defs)
  have h2: "user_email bob_row =
      reg_email \<lparr>reg_email = ''b@x.com'', reg_password = ''other'', reg_name = ''Bobby''\<rparr>"
    by (simp add: sample_defs)
  show ?thesis using register_duplicate_email[OF h1 h2, of toy_hash "''zz99''"]
    by (simp add: anon_state_def)
qed

text \<open>
  C9: when no user has the submitted email, a login POST returns normally (no
  exception) with the redirect to the login page; the new state is the old one with
  one message appended to the flash queue, so the session is the one the request came
  with and the store is untouched.
\<close>

theorem login_unknown_email:
  assumes "\<forall>u\<in>set (users (db s)). user_email u \<noteq> login_email f"
  shows "login chk (Some f) s =
           Inr (Redirect Login_page,
                s\<lparr>flashes := flashes s @ [''That email does not exist, please try again'']\<rparr>)"
  using assms by (simp add: login_def first_by_email_none[symmetric] flash_def)

theorem login_unknown_email_witness:
  "login toy_check (Some \<lparr>login_email = ''nobody@x.com'', login_password = ''pw1''\<rparr>) admin_state =
     Inr (Redirect Login_page,
          admin_state\<lparr>flashes := [''That email does not exist, please try again'']\<rparr>)"
proof -
  have h: "\<forall>u\<in>set (users (db admin_state)).
             user_email u \<noteq> login_email \<lparr>login_email = ''nobody@x.com'', login_password = ''pw1''\<rparr>"
    by (simp add: sample_defs)
  show ?thesis using login_unknown_email[OF h, of toy_check] by (simp add: sample_defs)
qed

section \<open>Managing posts\<close>

text \<open>
  C10, as stated, fails: for the admin and the id 2^63, which no post has, edit-post
  and delete-post end in OverflowError, raised by the lookup itself; no absent row is
  dereferenced.
\<close>

theorem admin_huge_id_counterexample:
  "\<not> (\<forall>s u pid form. current_user s = Authenticated u \<and> user_id u = 1 \<and>
          find_post (db s) pid = None \<longrightarrow>
        edit_post pid form s = Inl AttributeError \<and> delete pid s = Inl UnmappedInstanceError)"
proof
  assume a: "\<forall>s u pid form. current_user s = Authenticated u \<and> user_id u = 1 \<and>
          find_post (db s) pid = None \<longrightarrow>
        edit_post pid form s = Inl AttributeError \<and> delete pid s = Inl UnmappedInstanceError"
  have f: "find_post (db admin_state) 9223372036854775808 = None"
    by (simp add: find_post_def sample_defs)
  have "edit_post 9223372036854775808 None admin_state = Inl AttributeError"
    using a admin_state_admin f by blast
  moreover have "edit_post 9223372036854775808 None admin_state = Inl OverflowError"
    using f
    by (simp add: edit_post_def admin_only_def edit_post_body_def current_user_admin_state
        get_post_def key_in_range_def admin_row_def)
  ultimately show False by simp
qed

text \<open>
  C10, amended: for the admin and a post id that no post has, neither edit-post (with
  or without a submitted form) nor delete-post returns a response. For an id in the
  store's signed 64-bit key range the absent row is dereferenced: edit-post ends in
  AttributeError and delete-post in UnmappedInstanceError. For an id outside that
  range both end in OverflowError, raised by the lookup.
\<close>

theorem admin_missing_post_raises:
  assumes "current_user s = Authenticated u" and "user_id u = 1"
    and "\<forall>p\<in>set (blog_posts (db s)). post_id p \<noteq> pid"
  shows "edit_post pid form s =
           Inl (if key_in_range pid then AttributeError else OverflowError) \<and>
         delete pid s =
           Inl (if key_in_range pid then UnmappedInstanceError else OverflowError)"
proof -
  have "find_post (db s) pid = None" using assms(3) by (simp add: find_post_none)
  then show ?thesis using assms(1,2)
    by (simp add: edit_post_def delete_def admin_only_def edit_post_body_def delete_body_def
        get_post_def)
qed

theorem admin_missing_post_raises_witness:
  "edit_post 7 (Some form_T2) admin_state = Inl AttributeError \<and>
   delete 7 admin_state = Inl UnmappedInstanceError \<and>
   edit_post 9223372036854775808 (Some form_T2) admin_state = Inl OverflowError \<and>
   delete 9223372036854775808 admin_state = Inl OverflowError"
proof -
  have h2: "user_id admin_row = 1" by (simp add: sample_defs)
  have h3: "\<forall>p\<in>set (blog_posts (db admin_state)). post_id p \<noteq> 7" by (simp add: sample_defs)
  have h4: "\<forall>p\<in>set (blog_posts (db admin_state)). post_id p \<noteq> 9223372036854775808"
    by (simp add: sample_defs)
  have k: "key_in_range 7" "\<not> key_in_range 9223372036854775808"
    by (simp_all add: key_in_range_def)
  show ?thesis
    using admin_missing_post_raises[OF current_user_admin_state h2 h3, of "Some form_T2"]
      admin_missing_post_raises[OF current_user_admin_state h2 h4, of "Some form_T2"] k
    by simp
qed

section \<open>Comments\<close>

text \<open>
  C2, as stated, fails: a logged-in user who submits the comment form on the page of a
  path id that no post has does get a comment stored, and its \<open>post_id\<close> is NULL,
  not the path id.
\<close>

theorem comment_on_missing_post_counterexample:
  "\<not> (\<forall>s u index body. current_user s = Authenticated u \<longrightarrow>
        (\<exists>r c. show_post index (Some body) s =
                  Inr (r, s\<lparr>db := (db s)\<lparr>comments := comments (db s) @ [c]\<rparr>\<rparr>) \<and>
               comment_author_id c = Some (user_id u) \<and>
               comment_post_id c = Some index))"
proof
  assume a: "\<forall>s u index body. current_user s = Authenticated u \<longrightarrow>
        (\<exists>r c. show_post index (Some body) s =
                  Inr (r, s\<lparr>db := (db s)\<lparr>comments := comments (db s) @ [c]\<rparr>\<rparr>) \<and>
               comment_author_id c = Some (user_id u) \<and>
               comment_post_id c = Some index)"
  have "\<exists>r c. show_post 7 (Some ''hi'') bob_state =
                  Inr (r, bob_state\<lparr>db := (db bob_state)\<lparr>comments := comments (db bob_state) @ [c]\<rparr>\<rparr>) \<and>
               comment_author_id c = Some (user_id bob_row) \<and>
               comment_post_id c = Some 7"
    using a current_user_bob_state by blast
  then obtain r c where
      eq: "show_post 7 (Some ''hi'') bob_state =
             Inr (r, bob_state\<lparr>db := (db bob_state)\<lparr>comments := comments (db bob_state) @ [c]\<rparr>\<rparr>)"
      and pc: "comment_post_id c = Some 7"
    by blast
  have run: "show_post 7 (Some ''hi'') bob_state =
      Inr (Render (Post_html None []),
           bob_state\<lparr>db := (db bob_state)\<lparr>comments :=
             [\<lparr>comment_id = 1, comment_author_id = Some 2, comment_post_id = None,
               comment_body = ''hi''\<rparr>]\<rparr>\<rparr>)"
    by (simp add: show_post_def current_user_bob_state requested_post_def next_id_def)
       (simp add: sample_defs)
  from eq run have "c = \<lparr>comment_id = 1, comment_author_id = Some 2, comment_post_id = None,
               comment_body = ''hi''\<rparr>"
    by (simp add: sample_defs)
  with pc show False by simp
qed

text \<open>
  C2, amended: for a logged-in user and any path id, the submission appends one
  comment to the comment table (nothing else of the state changes) whose author id is
  the user's id and whose text is the submitted text; its post id is the path id when
  some post has that id, and NULL when none has. For the anonymous identity the state
  only gains the flash message, and the answer is the redirect to the login page.
\<close>

theorem comment_links_author_and_post:
  "(current_user s = Authenticated u \<longrightarrow>
      (\<exists>r c. show_post index (Some body) s =
                Inr (r, s\<lparr>db := (db s)\<lparr>comments := comments (db s) @ [c]\<rparr>\<rparr>) \<and>
             comment_author_id c = Some (user_id u) \<and>
             comment_post_id c =
               (if index \<in> post_id ` set (blog_posts (db s)) then Some index else None) \<and>
             comment_body c = body)) \<and>
   (current_user s = Anonymous \<longrightarrow>
      show_post index (Some body) s =
        Inr (Redirect Login_page,
             s\<lparr>flashes := flashes s @ [''YOu need to login or register to comment'']\<rparr>))"
  by (auto simp: show_post_def Let_def requested_post_id flash_def)

theorem comment_links_author_and_post_witness:
  "(\<exists>r c. show_post 2 (Some ''hi'') bob_state =
            Inr (r, bob_state\<lparr>db := (db bob_state)\<lparr>comments := [c]\<rparr>\<rparr>) \<and>
          comment_author_id c = Some 2 \<and> comment_post_id c = Some 2 \<and> comment_body c = ''hi'') \<and>
   (\<exists>r c. show_post 7 (Some ''hi'') bob_state =
            Inr (r, bob_state\<lparr>db := (db bob_state)\<lparr>comments := [c]\<rparr>\<rparr>) \<and>
          comment_author_id c = Some 2 \<and> comment_post_id c = None \<and> comment_body c = ''hi'') \<and>
   show_post 2 (Some ''hi'') anon_state =
     Inr (Redirect Login_page, anon_state\<lparr>flashes := [''YOu need to login or register to comment'']\<rparr>)"
proof -
  have h1: "current_user bob_state = Authenticated bob_row" by (rule current_user_bob_state)
  have i2: "2 \<in> post_id ` set (blog_posts (db bob_state))" by (simp add: sample_defs)
  have i7: "7 \<notin> post_id ` set (blog_posts (db bob_state))" by (simp add: sample_defs)
  have h2: "user_id bob_row = 2" by (simp add: sample_defs)
  have h3: "comments (db bob_state) = []" "flashes anon_state = []" by (simp_all add: sample_defs)
  have a: "\<exists>r c. show_post 2 (Some ''hi'') bob_state =
            Inr (r, bob_state\<lparr>db := (db bob_state)\<lparr>comments := [c]\<rparr>\<rparr>) \<and>
          comment_author_id c = Some 2 \<and> comment_post_id c = Some 2 \<and> comment_body c = ''hi''"
    using comment_links_author_and_post[of bob_state bob_row 2 "''hi''"] h1 i2 h2 h3 by simp
  have b: "\<exists>r c. show_post 7 (Some ''hi'') bob_state =
            Inr (r, bob_state\<lparr>db := (db bob_state)\<lparr>comments := [c]\<rparr>\<rparr>) \<and>
          comment_author_id c = Some 2 \<and> comment_post_id c = None \<and> comment_body c = ''hi''"
    using comment_links_author_and_post[of bob_state bob_row 7 "''hi''"] h1 i7 h2 h3 by simp
  have c: "show_post 2 (Some ''hi'') anon_state =
     Inr (Redirect Login_page, anon_state\<lparr>flashes := [''YOu need to login or register to comment'']\<rparr>)"
    using comment_links_author_and_post[of anon_state bob_row 2 "''hi''"] h3 current_user_anon_state
    by simp
  show ?thesis using a b c by blast
qed

section \<open>Creating, editing and deleting posts\<close>

text \<open>
  C8, as stated, fails: when a post with the submitted title exists, the admin's
  new-post POST ends in IntegrityError (the title column is unique), with no redirect
  and no new row.
\<close>

theorem new_post_duplicate_title_counterexample:
  "\<not> (\<forall>s u f today. current_user s = Authenticated u \<and> user_id u = 1 \<longrightarrow>
        (\<exists>s'. new_post (Some f) today s = Inr (Redirect Get_all_posts_page, s')))"
proof
  assume a: "\<forall>s u f today. current_user s = Authenticated u \<and> user_id u = 1 \<longrightarrow>
        (\<exists>s'. new_post (Some f) today s = Inr (Redirect Get_all_posts_page, s'))"
  have "\<exists>s'. new_post (Some (form_T2\<lparr>form_title := ''T''\<rparr>)) day_one admin_state =
               Inr (Redirect Get_all_posts_page, s')"
    using a admin_state_admin by blast
  moreover have "new_post (Some (form_T2\<lparr>form_title := ''T''\<rparr>)) day_one admin_state =
      Inl IntegrityError"
    by (simp add: new_post_def admin_only_def new_post_body_def current_user_admin_state)
       (simp add: sample_defs)
  ultimately show False by simp
qed

text \<open>
  C8, amended: for the admin and a submitted title that no post has, a new-post POST
  answers with the redirect to the post list and appends one post whose date is the
  request's clock time formatted by \<open>'%B %d, %Y'\<close>, whose author id is the current
  user's id, and whose title, subtitle, body and image URL are the submitted ones.
\<close>

theorem new_post_by_admin:
  assumes "current_user s = Authenticated u" and "user_id u = 1"
    and "\<forall>p\<in>set (blog_posts (db s)). post_title p \<noteq> form_title f"
  shows "\<exists>new_blog.
           new_post (Some f) today s =
             Inr (Redirect Get_all_posts_page,
                  s\<lparr>db := (db s)\<lparr>blog_posts := blog_posts (db s) @ [new_blog]\<rparr>\<rparr>) \<and>
           post_date new_blog = strftime_B_d_Y today \<and>
           post_author_id new_blog = Some (user_id u) \<and>
           post_title new_blog = form_title f \<and>
           post_subtitle new_blog = form_subtitle f \<and>
           post_body new_blog = form_body f \<and>
           post_img_url new_blog = form_img_url f"
proof -
  have n: "\<not> list_ex (\<lambda>p. post_title p = form_title f) (blog_posts (db s))"
    using assms(3) by (simp add: list_ex_iff)
  define nb where "nb = \<lparr>post_id = next_id (map post_id (blog_posts (db s))),
               post_author_id = Some (user_id u), post_title = form_title f,
               post_subtitle = form_subtitle f, post_date = strftime_B_d_Y today,
               post_body = form_body f, post_img_url = form_img_url f\<rparr>"
  have "new_post (Some f) today s =
      Inr (Redirect Get_all_posts_page, s\<lparr>db := (db s)\<lparr>blog_posts := blog_posts (db s) @ [nb]\<rparr>\<rparr>)"
    using assms(1,2) n by (simp add: new_post_def admin_only_def new_post_body_def Let_def nb_def)
  then show ?thesis
    by (intro exI[of _ nb]) (simp add: nb_def)
qed

theorem new_post_by_admin_witness:
  "\<exists>new_blog.
     new_post (Some form_T2) day_one admin_state =
       Inr (Redirect Get_all_posts_page,
            admin_state\<lparr>db := (db admin_state)\<lparr>blog_posts := [post_T, post_U, new_blog]\<rparr>\<rparr>) \<and>
     post_date new_blog = ''March 05, 2024'' \<and>
     post_author_id new_blog = Some 1 \<and>
     post_title new_blog = ''T2''"
proof -
  have h1: "current_user admin_state = Authenticated admin_row" by (rule current_user_admin_state)
  have h2: "user_id admin_row = 1" by (simp add: sample_defs)
  have h3: "\<forall>p\<in>set (blog_posts (db admin_state)). post_title p \<noteq> form_title form_T2"
    by (simp add: sample_defs)
  have d: "strftime_B_d_Y day_one = ''March 05, 2024''"
    unfolding day_one_def by code_simp
  have b: "blog_posts (db admin_state) = [post_T, post_U]" "form_title form_T2 = ''T2''"
    by (simp_all add: sample_defs)
  from new_post_by_admin[OF h1 h2 h3, of day_one] obtain nb where
    "new_post (Some form_T2) day_one admin_state =
             Inr (Redirect Get_all_posts_page,
                  admin_state\<lparr>db := (db admin_state)\<lparr>blog_posts := blog_posts (db admin_state) @ [nb]\<rparr>\<rparr>)"
    "post_date nb = strftime_B_d_Y day_one" "post_author_id nb = Some (user_id admin_row)"
    "post_title nb = form_title form_T2"
    by blast
  then show ?thesis using h2 d b by auto
qed

text \<open>
  C6, as stated, fails: when another post already has the submitted title, the admin's
  edit-post POST ends in IntegrityError, with no redirect and nothing changed.
\<close>

theorem edit_post_duplicate_title_counterexample:
  "\<not> (\<forall>s u pid p f. current_user s = Authenticated u \<and> user_id u = 1 \<and>
          get_post (db s) pid = Inr (Some p) \<longrightarrow>
        (\<exists>s'. edit_post pid (Some f) s = Inr (Redirect (Show_post_page pid), s')))"
proof
  assume a: "\<forall>s u pid p f. current_user s = Authenticated u \<and> user_id u = 1 \<and>
          get_post (db s) pid = Inr (Some p) \<longrightarrow>
        (\<exists>s'. edit_post pid (Some f) s = Inr (Redirect (Show_post_page pid), s'))"
  have g: "get_post (db admin_state) 2 = Inr (Some post_U)"
    by (simp add: get_post_def find_post_def sample_defs)
  have "\<exists>s'. edit_post 2 (Some (form_T2\<lparr>form_title := ''T''\<rparr>)) admin_state =
               Inr (Redirect (Show_post_page 2), s')"
    using a admin_state_admin g by blast
  moreover have "edit_post 2 (Some (form_T2\<lparr>form_title := ''T''\<rparr>)) admin_state =
      Inl IntegrityError"
    by (simp add: edit_post_def admin_only_def edit_post_body_def current_user_admin_state g)
       (simp add: sample_defs)
  ultimately show False by simp
qed

text \<open>
  C6, amended: for the admin, an existing post id and a submitted title that no other
  post has, an edit-post POST answers with the redirect to that post's page; only the
  post table changes, it keeps its length and order, each row with the path id gets
  the submitted title, subtitle, body and image URL and keeps its id, author id and
  date, and every other row is unchanged.
\<close>

theorem edit_post_changes_four_fields:
  assumes "current_user s = Authenticated u" and "user_id u = 1"
    and "pid \<in> post_id ` set (blog_posts (db s))"
    and "\<forall>q\<in>set (blog_posts (db s)). post_id q \<noteq> pid \<longrightarrow> post_title q \<noteq> form_title f"
  shows "\<exists>ps'.
           edit_post pid (Some f) s =
             Inr (Redirect (Show_post_page pid), s\<lparr>db := (db s)\<lparr>blog_posts := ps'\<rparr>\<rparr>) \<and>
           length ps' = length (blog_posts (db s)) \<and>
           (\<forall>i<length ps'.
              if post_id (blog_posts (db s) ! i) = pid
              then ps' ! i = (blog_posts (db s) ! i)
                      \<lparr>post_title := form_title f, post_subtitle := form_subtitle f,
                       post_body := form_body f, post_img_url := form_img_url f\<rparr> \<and>
                   post_id (ps' ! i) = pid \<and>
                   post_author_id (ps' ! i) = post_author_id (blog_posts (db s) ! i) \<and>
                   post_date (ps' ! i) = post_date (blog_posts (db s) ! i)
              else ps' ! i = blog_posts (db s) ! i)"
proof -
  from assms(3) obtain p where g: "get_post (db s) pid = Inr (Some p)"
    using get_post_some by blast
  have n: "\<not> list_ex (\<lambda>p. post_id p \<noteq> pid \<and> post_title p = form_title f) (blog_posts (db s))"
    using assms(4) by (auto simp: list_ex_iff)
  have e: "edit_post pid (Some f) s =
      Inr (Redirect (Show_post_page pid),
           s\<lparr>db := (db s)\<lparr>blog_posts :=
                map (\<lambda>p. if post_id p = pid then edit_row f p else p) (blog_posts (db s))\<rparr>\<rparr>)"
    using assms(1,2) g n by (simp add: edit_post_def admin_only_def edit_post_body_def)
  show ?thesis
    by (rule exI[of _ "map (\<lambda>p. if post_id p = pid then edit_row f p else p) (blog_posts (db s))"])
       (simp add: e edit_row_def)
qed

theorem edit_post_changes_four_fields_witness:
  "\<exists>ps'.
     edit_post 2 (Some form_T2) admin_state =
       Inr (Redirect (Show_post_page 2), admin_state\<lparr>db := (db admin_state)\<lparr>blog_posts := ps'\<rparr>\<rparr>) \<and>
     length ps' = 2 \<and> ps' ! 0 = post_T \<and>
     ps' ! 1 = post_U\<lparr>post_title := ''T2'', post_subtitle := ''S3'',
                       post_body := ''B3'', post_img_url := ''http://x/k.png''\<rparr> \<and>
     post_author_id (ps' ! 1) = Some 1 \<and> post_date (ps' ! 1) = ''March 06, 2024''"
proof -
  have h1: "current_user admin_state = Authenticated admin_row" by (rule current_user_admin_state)
  have h2: "user_id admin_row = 1" by (simp add: sample_defs)
  have h3: "2 \<in> post_id ` set (blog_posts (db admin_state))" by (simp add: sample_defs)
  have h4: "\<forall>q\<in>set (blog_posts (db admin_state)).
              post_id q \<noteq> 2 \<longrightarrow> post_title q \<noteq> form_title form_T2"
    by (simp add: sample_defs)
  from edit_post_changes_four_fields[OF h1 h2 h3 h4] obtain ps' where
    e: "edit_post 2 (Some form_T2) admin_state =
          Inr (Redirect (Show_post_page 2), admin_state\<lparr>db := (db admin_state)\<lparr>blog_posts := ps'\<rparr>\<rparr>)"
    and l: "length ps' = length (blog_posts (db admin_state))"
    and a: "\<forall>i<length ps'.
              if post_id (blog_posts (db admin_state) ! i) = 2
              then ps' ! i = (blog_posts (db admin_state) ! i)
                      \<lparr>post_title := form_title form_T2, post_subtitle := form_subtitle form_T2,
                       post_body := form_body form_T2, post_img_url := form_img_url form_T2\<rparr> \<and>
                   post_id (ps' ! i) = 2 \<and>
                   post_author_id (ps' ! i) = post_author_id (blog_posts (db admin_state) ! i) \<and>
                   post_date (ps' ! i) = post_date (blog_posts (db admin_state) ! i)
              else ps' ! i = blog_posts (db admin_state) ! i"
    by blast
  have b: "blog_posts (db admin_state) = [post_T, post_U]" by (simp add: sample_defs)
  have l2: "length ps' = 2" using l b by simp
  have i0: "ps' ! 0 = post_T" using a[rule_format, of 0] l2 b by (simp add: post_T_def)
  have i1: "ps' ! 1 = post_U\<lparr>post_title := ''T2'', post_subtitle := ''S3'',
                       post_body := ''B3'', post_img_url := ''http://x/k.png''\<rparr>"
    using a[rule_format, of 1] l2 b by (simp add: post_U_def form_T2_def)
  have i2: "post_author_id (ps' ! 1) = Some 1 \<and> post_date (ps' ! 1) = ''March 06, 2024''"
    using i1 by (simp add: post_U_def)
  show ?thesis using e l2 i0 i1 i2 by blast
qed

text \<open>
  C7: when the admin's new-post POST succeeds, reading the new id returns a row with
  the submitted fields (and the date and author of the request); deleting that id as
  the admin then answers with the redirect to the post list, after which the post
  table has no row with that key (reading the id by key returns nothing, or cannot
  even be asked when the key is outside the store's range), the post page's lookup
  finds nothing, and the list of all posts has no row with that id.
\<close>

theorem post_round_trip:
  assumes "current_user s = Authenticated u" and "user_id u = 1"
    and "new_post (Some f) today s = Inr (r, s1)"
    and "pid = next_id (map post_id (blog_posts (db s)))"
  shows "get_post (db s1) pid =
           Inr (Some \<lparr>post_id = pid, post_author_id = Some (user_id u), post_title = form_title f,
                 post_subtitle = form_subtitle f, post_date = strftime_B_d_Y today,
                 post_body = form_body f, post_img_url = form_img_url f\<rparr>) \<and>
         (\<exists>s2 ps. delete pid s1 = Inr (Redirect Get_all_posts_page, s2) \<and>
                  find_post (db s2) pid = None \<and>
                  get_post (db s2) pid =
                    (if key_in_range pid then Inr None else Inl OverflowError) \<and>
                  requested_post (db s2) pid = None \<and>
                  get_all_posts s2 = Inr (Render (Index_html ps), s2) \<and>
                  pid \<notin> post_id ` set ps)"
proof -
  define nb where "nb = \<lparr>post_id = pid, post_author_id = Some (user_id u), post_title = form_title f,
                 post_subtitle = form_subtitle f, post_date = strftime_B_d_Y today,
                 post_body = form_body f, post_img_url = form_img_url f\<rparr>"
  have s1: "s1 = s\<lparr>db := (db s)\<lparr>blog_posts := blog_posts (db s) @ [nb]\<rparr>\<rparr>"
    using assms
    by (simp add: new_post_def admin_only_def new_post_body_def Let_def nb_def split: if_splits)
  have fresh: "pid \<notin> post_id ` set (blog_posts (db s))"
    using next_id_fresh[of "map post_id (blog_posts (db s))"] assms(4) by simp
  have "find_post (db s1) pid = Some nb"
    using get_post_fresh_append[OF fresh, of nb] by (simp add: s1 find_post_def nb_def)
  then have g: "get_post (db s1) pid = Inr (Some nb)" by (rule get_post_found)
  have cu: "current_user s1 = Authenticated u"
    using assms(1) current_user_db_cong[of s1 s] by (simp add: s1)
  define s2 where "s2 = s1\<lparr>db := (db s1)\<lparr>blog_posts := filter (\<lambda>p. post_id p \<noteq> pid) (blog_posts (db s1)),
                               comments := map (detach_comment pid) (comments (db s1))\<rparr>\<rparr>"
  have d: "delete pid s1 = Inr (Redirect Get_all_posts_page, s2)"
    using cu assms(2) g by (simp add: delete_def admin_only_def delete_body_def s2_def)
  have gone: "pid \<notin> post_id ` set (blog_posts (db s2))" by (auto simp: s2_def)
  have g2: "find_post (db s2) pid = None" using gone by (auto simp: find_post_none)
  have g3: "get_post (db s2) pid = (if key_in_range pid then Inr None else Inl OverflowError)"
    using g2 by (rule get_post_absent)
  have r2: "requested_post (db s2) pid = None" using gone by (simp add: requested_post_none)
  have "get_all_posts s2 = Inr (Render (Index_html (blog_posts (db s2))), s2)"
    by (simp add: get_all_posts_def)
  with g d g2 g3 r2 gone show ?thesis unfolding nb_def by blast
qed

theorem post_round_trip_witness:
  "get_post (db (admin_state\<lparr>db := (db admin_state)\<lparr>blog_posts := [post_T, post_U, post_T2]\<rparr>\<rparr>)) 3 =
     Inr (Some post_T2) \<and>
   (\<exists>s2 ps. delete 3 (admin_state\<lparr>db := (db admin_state)\<lparr>blog_posts := [post_T, post_U, post_T2]\<rparr>\<rparr>) =
               Inr (Redirect Get_all_posts_page, s2) \<and>
             find_post (db s2) 3 = None \<and>
             get_post (db s2) 3 = Inr None \<and>
             requested_post (db s2) 3 = None \<and>
             get_all_posts s2 = Inr (Render (Index_html ps), s2) \<and>
             3 \<notin> post_id ` set ps)"
proof -
  have h1: "current_user admin_state = Authenticated admin_row" by (rule current_user_admin_state)
  have h2: "user_id admin_row = 1" by (simp add: sample_defs)
  have h4: "3 = next_id (map post_id (blog_posts (db admin_state)))"
    by (simp add: sample_defs next_id_def)
  have e: "\<lparr>post_id = 3, post_author_id = Some (user_id admin_row),
            post_title = form_title form_T2, post_subtitle = form_subtitle form_T2,
            post_date = strftime_B_d_Y day_one, post_body = form_body form_T2,
            post_img_url = form_img_url form_T2\<rparr> = post_T2"
    by (simp add: strftime_day_one) (simp add: sample_defs)
  have k: "key_in_range 3" by (simp add: key_in_range_def)
  show ?thesis
    using post_round_trip[OF h1 h2 new_post_admin_state h4] k unfolding e by simp
qed

section \<open>The store invariant over sequences of requests\<close>

lemma distinct_filter_one:
  "distinct (map f xs) \<Longrightarrow> x \<in> f ` set xs \<Longrightarrow> length (filter (\<lambda>y. f y = x) xs) = 1"
proof (induction xs)
  case Nil
  then show ?case by simp
next
  case (Cons a xs)
  show ?case
  proof (cases "f a = x")
    case True
    then have "x \<notin> f ` set xs" using Cons.prems(1) by auto
    then have "filter (\<lambda>y. f y = x) xs = []" by (auto simp: filter_empty_conv)
    with True show ?thesis by simp
  next
    case False
    then show ?thesis using Cons by auto
  qed
qed

lemma ref_ok_resolved:
  assumes "distinct (map user_id (users d))" and "distinct (map post_id (blog_posts d))"
    and "comment_ref_ok (user_id ` set (users d)) (post_id ` set (blog_posts d)) c"
  shows "author_resolved d c \<and> post_null_or_resolved d c"
  using assms
  by (auto simp: comment_ref_ok_def author_resolved_def post_null_or_resolved_def
      distinct_filter_one split: option.splits)

lemma store_inv_attached: "store_inv d \<Longrightarrow> comments_attached d"
  unfolding store_inv_def comments_attached_def list_all_iff
  using ref_ok_resolved by blast

lemma store_inv_empty: "store_inv empty_db"
  by (simp add: store_inv_def empty_db_def)

lemma comment_ref_ok_mono:
  "us \<subseteq> us' \<Longrightarrow> ps \<subseteq> ps' \<Longrightarrow> comment_ref_ok us ps c \<Longrightarrow> comment_ref_ok us' ps' c"
  by (auto simp: comment_ref_ok_def split: option.splits)

lemma current_user_in_users:
  "current_user s = Authenticated u \<Longrightarrow> u \<in> set (users (db s))"
  by (auto simp: current_user_def load_user_def find_Some_iff split: option.splits)

lemma store_inv_add_user:
  assumes "store_inv d" and "user_id nu = next_id (map user_id (users d))"
  shows "store_inv (d\<lparr>users := users d @ [nu]\<rparr>)"
proof -
  have fresh: "user_id nu \<notin> user_id ` set (users d)"
    using next_id_fresh[of "map user_id (users d)"] assms(2) by simp
  have "list_all (comment_ref_ok (user_id ` set (users d @ [nu])) (post_id ` set (blog_posts d)))
          (comments d)"
    using assms(1) unfolding store_inv_def list_all_iff
    by (auto intro: comment_ref_ok_mono[of "user_id ` set (users d)" _ "post_id ` set (blog_posts d)"])
  then show ?thesis using assms(1) fresh by (simp add: store_inv_def)
qed

lemma store_inv_add_post:
  assumes "store_inv d" and "post_id nb = next_id (map post_id (blog_posts d))"
  shows "store_inv (d\<lparr>blog_posts := blog_posts d @ [nb]\<rparr>)"
proof -
  have fresh: "post_id nb \<notin> post_id ` set (blog_posts d)"
    using next_id_fresh[of "map post_id (blog_posts d)"] assms(2) by simp
  have "list_all (comment_ref_ok (user_id ` set (users d)) (post_id ` set (blog_posts d @ [nb])))
          (comments d)"
    using assms(1) unfolding store_inv_def list_all_iff
    by (auto intro: comment_ref_ok_mono[of "user_id ` set (users d)" _ "post_id ` set (blog_posts d)"])
  then show ?thesis using assms(1) fresh by (simp add: store_inv_def)
qed

lemma store_inv_add_comment:
  assumes "store_inv d"
    and "comment_ref_ok (user_id ` set (users d)) (post_id ` set (blog_posts d)) nc"
  shows "store_inv (d\<lparr>comments := comments d @ [nc]\<rparr>)"
  using assms by (simp add: store_inv_def)

lemma edit_keeps_ids:
  "map post_id (map (\<lambda>p. if post_id p = pid then edit_row f p else p) ps) = map post_id ps"
  by (induction ps) (simp_all add: edit_row_def)

lemma store_inv_edit:
  assumes "store_inv d"
  shows "store_inv (d\<lparr>blog_posts := map (\<lambda>p. if post_id p = pid then edit_row f p else p) (blog_posts d)\<rparr>)"
proof -
  define ps' where "ps' = map (\<lambda>p. if post_id p = pid then edit_row f p else p) (blog_posts d)"
  have m: "map post_id ps' = map post_id (blog_posts d)"
    unfolding ps'_def by (rule edit_keeps_ids)
  have s: "post_id ` set ps' = post_id ` set (blog_posts d)"
    using m by (metis list.set_map)
  have "store_inv (d\<lparr>blog_posts := ps'\<rparr>)"
    using assms by (simp add: store_inv_def m s)
  then show ?thesis by (simp add: ps'_def)
qed

lemma detach_ref_ok:
  assumes "comment_ref_ok us ps c"
  shows "comment_ref_ok us (ps - {pid}) (detach_comment pid c)"
  using assms by (auto simp: comment_ref_ok_def detach_comment_def split: option.splits)

lemma store_inv_remove_post:
  assumes "store_inv d"
  shows "store_inv (d\<lparr>blog_posts := filter (\<lambda>p. post_id p \<noteq> pid) (blog_posts d),
                      comments := map (detach_comment pid) (comments d)\<rparr>)"
proof -
  have ids: "post_id ` set (filter (\<lambda>p. post_id p \<noteq> pid) (blog_posts d))
             = post_id ` set (blog_posts d) - {pid}"
    by auto
  have "list_all (comment_ref_ok (user_id ` set (users d)) (post_id ` set (blog_posts d) - {pid}))
          (map (detach_comment pid) (comments d))"
    using assms unfolding store_inv_def list_all_iff by (auto intro: detach_ref_ok)
  then show ?thesis using assms ids
    by (simp add: store_inv_def distinct_map_filter)
qed

lemma register_db:
  assumes "register gen form salt s = Inr (r, s')"
  shows "db s' = db s \<or>
         (\<exists>nu. user_id nu = next_id (map user_id (users (db s))) \<and>
               db s' = (db s)\<lparr>users := users (db s) @ [nu]\<rparr>)"
proof (cases form)
  case None
  then show ?thesis using assms by (simp add: register_def)
next
  case (Some f)
  show ?thesis
  proof (cases "first_by_email (db s) (reg_email f)")
    case (Some u)
    then show ?thesis using assms \<open>form = Some f\<close> by (auto simp: register_def flash_def)
  next
    case None
    define nu where "nu = \<lparr>user_id = next_id (map user_id (users (db s))), user_email = reg_email f,
                 user_password = gen salt (reg_password f), user_name = reg_name f\<rparr>"
    have "db s' = (db s)\<lparr>users := users (db s) @ [nu]\<rparr>"
      using None assms \<open>form = Some f\<close> by (auto simp: register_def Let_def login_user_def nu_def)
    moreover have "user_id nu = next_id (map user_id (users (db s)))" by (simp add: nu_def)
    ultimately show ?thesis by blast
  qed
qed

lemma login_db: "login chk form s = Inr (r, s') \<Longrightarrow> db s' = db s"
  by (auto simp: login_def flash_def login_user_def split: option.splits if_splits)

lemma show_post_db:
  assumes "show_post index form s = Inr (r, s')"
  shows "db s' = db s \<or>
         (\<exists>nc. comment_ref_ok (user_id ` set (users (db s))) (post_id ` set (blog_posts (db s))) nc \<and>
               db s' = (db s)\<lparr>comments := comments (db s) @ [nc]\<rparr>)"
proof (cases form)
  case None
  then show ?thesis using assms by (simp add: show_post_def)
next
  case (Some body)
  show ?thesis
  proof (cases "current_user s")
    case Anonymous
    then show ?thesis using assms Some by (auto simp: show_post_def flash_def)
  next
    case (Authenticated u)
    define nc where "nc = \<lparr>comment_id = next_id (map comment_id (comments (db s))),
             comment_author_id = Some (user_id u),
             comment_post_id = map_option post_id (requested_post (db s) index),
             comment_body = body\<rparr>"
    have uin: "user_id u \<in> user_id ` set (users (db s))"
      using current_user_in_users[OF Authenticated] by simp
    have ok: "comment_ref_ok (user_id ` set (users (db s))) (post_id ` set (blog_posts (db s))) nc"
      using uin by (simp add: comment_ref_ok_def nc_def requested_post_id)
    have "db s' = (db s)\<lparr>comments := comments (db s) @ [nc]\<rparr>"
      using assms Some Authenticated by (auto simp: show_post_def Let_def nc_def)
    with ok show ?thesis by blast
  qed
qed

lemma new_post_body_db:
  assumes "new_post_body form today s = Inr (r, s')"
  shows "db s' = db s \<or>
         (\<exists>nb. post_id nb = next_id (map post_id (blog_posts (db s))) \<and>
               db s' = (db s)\<lparr>blog_posts := blog_posts (db s) @ [nb]\<rparr>)"
proof (cases form)
  case None
  then show ?thesis using assms by (simp add: new_post_body_def)
next
  case (Some f)
  show ?thesis
  proof (cases "current_user s")
    case Anonymous
    then show ?thesis using assms Some by (simp add: new_post_body_def)
  next
    case (Authenticated u)
    define nb where "nb = \<lparr>post_id = next_id (map post_id (blog_posts (db s))),
                                post_author_id = Some (user_id u),
                                post_title = form_title f,
                                post_subtitle = form_subtitle f,
                                post_date = strftime_B_d_Y today,
                                post_body = form_body f,
                                post_img_url = form_img_url f\<rparr>"
    have "db s' = (db s)\<lparr>blog_posts := blog_posts (db s) @ [nb]\<rparr>"
      using assms Some Authenticated
      by (auto simp: new_post_body_def Let_def nb_def split: if_splits)
    moreover have "post_id nb = next_id (map post_id (blog_posts (db s)))" by (simp add: nb_def)
    ultimately show ?thesis by blast
  qed
qed

lemma edit_post_body_db:
  assumes "edit_post_body pid form s = Inr (r, s')"
  shows "db s' = db s \<or>
      (\<exists>f. db s' = (db s)\<lparr>blog_posts :=
              map (\<lambda>p. if post_id p = pid then edit_row f p else p) (blog_posts (db s))\<rparr>)"
  using assms by (auto simp: edit_post_body_def split: sum.splits option.splits if_splits)

lemma delete_body_db:
  assumes "delete_body pid s = Inr (r, s')"
  shows "db s' = (db s)\<lparr>blog_posts := filter (\<lambda>p. post_id p \<noteq> pid) (blog_posts (db s)),
                               comments := map (detach_comment pid) (comments (db s))\<rparr>"
  using assms by (auto simp: delete_body_def split: sum.splits option.splits)

lemma admin_only_result:
  assumes "admin_only function_x s = Inr (r, s')"
  shows "s' = s \<or> function_x s = Inr (r, s')"
  using assms by (auto simp: admin_only_def split: identity.splits if_splits)

lemma store_inv_register:
  "store_inv (db s) \<Longrightarrow> register gen form salt s = Inr (r, s') \<Longrightarrow> store_inv (db s')"
  using register_db[of gen form salt s r s'] store_inv_add_user[of "db s"] by auto

lemma store_inv_show_post:
  "store_inv (db s) \<Longrightarrow> show_post index form s = Inr (r, s') \<Longrightarrow> store_inv (db s')"
  using show_post_db[of index form s r s'] store_inv_add_comment[of "db s"] by auto

lemma store_inv_new_post:
  assumes "store_inv (db s)" and "new_post form today s = Inr (r, s')"
  shows "store_inv (db s')"
proof -
  from assms(2) have "s' = s \<or> new_post_body form today s = Inr (r, s')"
    unfolding new_post_def by (rule admin_only_result)
  then show ?thesis
    using assms(1) new_post_body_db[of form today s r s'] store_inv_add_post[of "db s"] by auto
qed

lemma store_inv_edit_post:
  assumes "store_inv (db s)" and "edit_post pid form s = Inr (r, s')"
  shows "store_inv (db s')"
proof -
  from assms(2) have "s' = s \<or> edit_post_body pid form s = Inr (r, s')"
    unfolding edit_post_def by (rule admin_only_result)
  then show ?thesis
    using assms(1) edit_post_body_db[of pid form s r s'] store_inv_edit[of "db s"] by auto
qed

lemma store_inv_delete:
  assumes "store_inv (db s)" and "delete pid s = Inr (r, s')"
  shows "store_inv (db s')"
proof -
  from assms(2) have "s' = s \<or> delete_body pid s = Inr (r, s')"
    unfolding delete_def by (rule admin_only_result)
  then show ?thesis
    using assms(1) delete_body_db[of pid s r s'] store_inv_remove_post[of "db s" pid] by auto
qed

lemma contact_db: "contact form smtp_ok s = Inr (r, s') \<Longrightarrow> db s' = db s"
  by (auto simp: contact_def split: option.splits if_splits)

lemma store_inv_handle:
  assumes "store_inv (db s)" and "handle gen chk req s = Inr (r, s')"
  shows "store_inv (db s')"
proof (cases req)
  case Get_all_posts
  then show ?thesis using assms by (auto simp: get_all_posts_def)
next
  case (Register form salt)
  then show ?thesis using assms store_inv_register by auto
next
  case (Login form)
  then show ?thesis using assms login_db[of chk form s r s'] by auto
next
  case Logout
  then show ?thesis using assms by (auto simp: logout_def logout_user_def)
next
  case (Show_post index form)
  then show ?thesis using assms store_inv_show_post by auto
next
  case (New_post form today)
  then show ?thesis using assms store_inv_new_post by auto
next
  case (Edit_post pid form)
  then show ?thesis using assms store_inv_edit_post by auto
next
  case (Delete pid)
  then show ?thesis using assms store_inv_delete by auto
next
  case About
  then show ?thesis using assms by (auto simp: about_def)
next
  case (Contact form smtp_ok)
  then show ?thesis using assms contact_db[of form smtp_ok s r s'] by auto
qed

lemma store_inv_step:
  assumes "store_inv d"
  shows "store_inv (step gen chk ev d)"
proof (cases "handle gen chk (snd ev) \<lparr>db = d, session = fst ev, flashes = []\<rparr>")
  case (Inl e)
  then show ?thesis using assms by (simp add: step_def)
next
  case (Inr p)
  obtain r s' where p: "p = (r, s')" by (cases p)
  have "store_inv (db s')"
    using store_inv_handle[of "\<lparr>db = d, session = fst ev, flashes = []\<rparr>" gen chk "snd ev" r s']
      assms Inr p by simp
  then show ?thesis using Inr p by (simp add: step_def)
qed

lemma store_inv_run: "store_inv d \<Longrightarrow> store_inv (run gen chk evs d)"
  unfolding run_def by (induction evs arbitrary: d) (simp_all add: store_inv_step)


lemma sample_step1:
  "step toy_hash toy_check (None, Register (Some reg_form) ''ab12'') empty_db
     = \<lparr>users = [admin_row], blog_posts = [], comments = []\<rparr>"
  by (simp add: step_def register_def first_by_email_def empty_db_def next_id_def
      login_user_def reg_form_def sample_defs)

lemma sample_step2:
  "step toy_hash toy_check (Some 1, Show_post 7 (Some ''hi''))
       \<lparr>users = [admin_row], blog_posts = [], comments = []\<rparr>
     = \<lparr>users = [admin_row], blog_posts = [],
        comments = [\<lparr>comment_id = 1, comment_author_id = Some 1, comment_post_id = None,
                     comment_body = ''hi''\<rparr>]\<rparr>"
  by (simp add: step_def show_post_def current_user_def load_user_def requested_post_def
      next_id_def admin_row_def)

lemma sample_run:
  "run toy_hash toy_check sample_trace empty_db
     = \<lparr>users = [admin_row], blog_posts = [],
        comments = [\<lparr>comment_id = 1, comment_author_id = Some 1, comment_post_id = None,
                     comment_body = ''hi''\<rparr>]\<rparr>"
  by (simp add: run_def sample_trace_def sample_step1 sample_step2)


lemma delete_redirect:
  assumes "delete pid s = Inr (Redirect Get_all_posts_page, s')"
  shows "s' = s\<lparr>db := (db s)\<lparr>blog_posts := filter (\<lambda>p. post_id p \<noteq> pid) (blog_posts (db s)),
                               comments := map (detach_comment pid) (comments (db s))\<rparr>\<rparr>"
  using assms
  by (auto simp: delete_def admin_only_def delete_body_def
      split: identity.splits if_splits sum.splits option.splits)

lemma detached_unreferenced:
  "list_all (\<lambda>c. comment_post_id c \<noteq> Some pid) (map (detach_comment pid) cs)"
  by (induction cs) (simp_all add: detach_comment_def)

lemma sample_step_new_post:
  "step toy_hash toy_check (Some 1, New_post (Some form_T2) day_one)
       \<lparr>users = [admin_row], blog_posts = [], comments = []\<rparr>
     = \<lparr>users = [admin_row], blog_posts = [post_one], comments = []\<rparr>"
  by (simp add: step_def new_post_def admin_only_def new_post_body_def current_user_def
      load_user_def strftime_day_one next_id_def)
     (simp add: admin_row_def form_T2_def post_one_def)

lemma sample_step_comment:
  "step toy_hash toy_check (Some 1, Show_post 1 (Some ''hi''))
       \<lparr>users = [admin_row], blog_posts = [post_one], comments = []\<rparr> = commented_db"
  by (simp add: step_def show_post_def current_user_def load_user_def requested_post_def
      next_id_def admin_row_def post_one_def comment_one_def commented_db_def)

lemma delete_commented:
  "delete 1 \<lparr>db = commented_db, session = Some 1, flashes = []\<rparr> =
     Inr (Redirect Get_all_posts_page,
          \<lparr>db = \<lparr>users = [admin_row], blog_posts = [],
                 comments = [comment_one\<lparr>comment_post_id := None\<rparr>]\<rparr>,
           session = Some 1, flashes = []\<rparr>)"
  by (simp add: delete_def admin_only_def delete_body_def current_user_def load_user_def
      get_post_def find_post_def detach_comment_def commented_db_def)
     (simp add: admin_row_def post_one_def comment_one_def)

lemma sample_step_delete:
  "step toy_hash toy_check (Some 1, Delete 1) commented_db
     = \<lparr>users = [admin_row], blog_posts = [],
        comments = [comment_one\<lparr>comment_post_id := None\<rparr>]\<rparr>"
  by (simp add: step_def delete_commented)

lemma delete_run:
  "run toy_hash toy_check delete_trace empty_db
     = \<lparr>users = [admin_row], blog_posts = [],
        comments = [comment_one\<lparr>comment_post_id := None\<rparr>]\<rparr>"
  by (simp add: run_def delete_trace_def sample_step1 sample_step_new_post sample_step_comment
      sample_step_delete)


text \<open>
  C3, as stated, fails: after a registration and a comment submitted by that user on
  the page of a path id that no post has, the store holds a comment whose post
  reference is NULL, so it does not reference an existing post.
\<close>

theorem comment_without_post_counterexample:
  "\<not> comments_resolved (run toy_hash toy_check sample_trace empty_db)"
  by (simp add: sample_run comments_resolved_def post_resolved_def)


text \<open>
  C3, amended: after every sequence of requests, by any clients, starting from the
  empty store, every comment references exactly one existing user, and its post
  reference is either NULL or references exactly one existing post. A successful
  delete of a post keeps every comment row and sets the post reference of exactly the
  comments of that post to NULL, so no comment references the deleted post, which is
  gone from the post table. A comment created by a logged-in user gets the path id as
  post reference when some post has that id, and NULL when none has.
\<close>

theorem comments_stay_attached:
  "comments_attached (run gen chk evs empty_db) \<and>
   (delete pid s = Inr (Redirect Get_all_posts_page, s') \<longrightarrow>
      comments (db s') =
        map (\<lambda>c. if comment_post_id c = Some pid then c\<lparr>comment_post_id := None\<rparr> else c)
          (comments (db s)) \<and>
      list_all (\<lambda>c. comment_post_id c \<noteq> Some pid) (comments (db s')) \<and>
      find_post (db s') pid = None) \<and>
   (current_user s = Authenticated u \<longrightarrow>
      (\<exists>r c. show_post index (Some body) s =
                Inr (r, s\<lparr>db := (db s)\<lparr>comments := comments (db s) @ [c]\<rparr>\<rparr>) \<and>
             comment_author_id c = Some (user_id u) \<and>
             comment_post_id c =
               (if index \<in> post_id ` set (blog_posts (db s)) then Some index else None)))"
proof -
  have a: "comments_attached (run gen chk evs empty_db)"
    by (rule store_inv_attached[OF store_inv_run[OF store_inv_empty]])
  have b: "comments (db s') =
        map (\<lambda>c. if comment_post_id c = Some pid then c\<lparr>comment_post_id := None\<rparr> else c)
          (comments (db s)) \<and>
      list_all (\<lambda>c. comment_post_id c \<noteq> Some pid) (comments (db s')) \<and>
      find_post (db s') pid = None"
    if d: "delete pid s = Inr (Redirect Get_all_posts_page, s')"
  proof -
    have e: "s' = s\<lparr>db := (db s)\<lparr>blog_posts := filter (\<lambda>p. post_id p \<noteq> pid) (blog_posts (db s)),
                               comments := map (detach_comment pid) (comments (db s))\<rparr>\<rparr>"
      using d by (rule delete_redirect)
    have c1: "comments (db s') = map (detach_comment pid) (comments (db s))" by (simp add: e)
    have c2: "detach_comment pid =
        (\<lambda>c. if comment_post_id c = Some pid then c\<lparr>comment_post_id := None\<rparr> else c)"
      by (rule ext) (simp add: detach_comment_def)
    have c3: "find_post (db s') pid = None" by (auto simp: e find_post_none)
    show ?thesis using c1 c3 detached_unreferenced[of pid "comments (db s)"] by (simp add: c2)
  qed
  have c: "\<exists>r c. show_post index (Some body) s =
                Inr (r, s\<lparr>db := (db s)\<lparr>comments := comments (db s) @ [c]\<rparr>\<rparr>) \<and>
             comment_author_id c = Some (user_id u) \<and>
             comment_post_id c =
               (if index \<in> post_id ` set (blog_posts (db s)) then Some index else None)"
    if "current_user s = Authenticated u"
    using that by (auto simp: show_post_def Let_def requested_post_id)
  show ?thesis using a b c by blast
qed


theorem comments_stay_attached_witness:
  "comments_attached (run toy_hash toy_check delete_trace empty_db) \<and>
   run toy_hash toy_check delete_trace empty_db =
     \<lparr>users = [admin_row], blog_posts = [],
      comments = [\<lparr>comment_id = 1, comment_author_id = Some 1, comment_post_id = None,
                   comment_body = ''hi''\<rparr>]\<rparr> \<and>
   comments (db \<lparr>db = commented_db, session = Some 1, flashes = []\<rparr>) =
     [\<lparr>comment_id = 1, comment_author_id = Some 1, comment_post_id = Some 1,
       comment_body = ''hi''\<rparr>] \<and>
   (\<exists>s'. delete 1 \<lparr>db = commented_db, session = Some 1, flashes = []\<rparr> =
            Inr (Redirect Get_all_posts_page, s') \<and>
          comments (db s') =
            [\<lparr>comment_id = 1, comment_author_id = Some 1, comment_post_id = None,
              comment_body = ''hi''\<rparr>] \<and>
          find_post (db s') 1 = None) \<and>
   (\<exists>r c. show_post 7 (Some ''yo'') \<lparr>db = commented_db, session = Some 1, flashes = []\<rparr> =
            Inr (r, \<lparr>db = commented_db\<lparr>comments := [comment_one, c]\<rparr>, session = Some 1,
                     flashes = []\<rparr>) \<and>
          comment_author_id c = Some 1 \<and> comment_post_id c = None)"
proof -
  define s where "s = \<lparr>db = commented_db, session = Some 1, flashes = []\<rparr>"
  define s' where "s' = \<lparr>db = \<lparr>users = [admin_row], blog_posts = [],
                 comments = [comment_one\<lparr>comment_post_id := None\<rparr>]\<rparr>,
           session = Some 1, flashes = []\<rparr>"
  have d: "delete 1 s = Inr (Redirect Get_all_posts_page, s')"
    unfolding s_def s'_def by (rule delete_commented)
  have cu: "current_user s = Authenticated admin_row"
    by (simp add: s_def current_user_def load_user_def commented_db_def admin_row_def)
  have i7: "7 \<notin> post_id ` set (blog_posts (db s))"
    by (simp add: s_def commented_db_def post_one_def)
  have cs: "comments (db s) = [comment_one]" by (simp add: s_def commented_db_def)
  have uid: "user_id admin_row = 1" by (simp add: admin_row_def)
  note t = comments_stay_attached[of toy_hash toy_check delete_trace 1 s s' admin_row 7 "''yo''"]
  have p1: "comments_attached (run toy_hash toy_check delete_trace empty_db)" using t by blast
  have p2: "comments (db s') = [comment_one\<lparr>comment_post_id := None\<rparr>] \<and> find_post (db s') 1 = None"
    using t d cs by (simp add: comment_one_def)
  have p3: "\<exists>r c. show_post 7 (Some ''yo'') s =
            Inr (r, s\<lparr>db := (db s)\<lparr>comments := [comment_one, c]\<rparr>\<rparr>) \<and>
          comment_author_id c = Some 1 \<and> comment_post_id c = None"
    using t cu i7 cs uid by simp
  show ?thesis
    using p1 p2 p3 d unfolding s_def
    by (simp add: delete_run comment_one_def commented_db_def) 
qed

section \<open>Logging in after registration\<close>

text \<open>
  No handler removes or changes a user row: every request leaves the user table as it
  was or appends to it, so the first row with a given email stays the first.
\<close>

lemma users_handle:
  assumes "handle gen chk req s = Inr (r, s')"
  shows "\<exists>ext. users (db s') = users (db s) @ ext"
proof -
  have same: "db s' = db s \<Longrightarrow> ?thesis" by simp
  show ?thesis
  proof (cases req)
    case Get_all_posts
    then show ?thesis using assms by (auto simp: get_all_posts_def)
  next
    case (Register form salt)
    then show ?thesis using assms register_db[of gen form salt s r s'] by auto
  next
    case (Login form)
    then show ?thesis using assms login_db[of chk form s r s'] by auto
  next
    case Logout
    then show ?thesis using assms by (auto simp: logout_def logout_user_def)
  next
    case (Show_post index form)
    then show ?thesis using assms show_post_db[of index form s r s'] by auto
  next
    case (New_post form today)
    then have "s' = s \<or> new_post_body form today s = Inr (r, s')"
      using assms admin_only_result[of "new_post_body form today" s r s'] by (simp add: new_post_def)
    then show ?thesis using new_post_body_db[of form today s r s'] by auto
  next
    case (Edit_post pid form)
    then have "s' = s \<or> edit_post_body pid form s = Inr (r, s')"
      using assms admin_only_result[of "edit_post_body pid form" s r s'] by (simp add: edit_post_def)
    then show ?thesis using edit_post_body_db[of pid form s r s'] by auto
  next
    case (Delete pid)
    then have "s' = s \<or> delete_body pid s = Inr (r, s')"
      using assms admin_only_result[of "delete_body pid" s r s'] by (simp add: delete_def)
    then show ?thesis using delete_body_db[of pid s r s'] by auto
  next
    case About
    then show ?thesis using assms by (auto simp: about_def)
  next
    case (Contact form smtp_ok)
    then show ?thesis using assms contact_db[of form smtp_ok s r s'] by auto
  qed
qed

lemma users_step: "\<exists>ext. users (step gen chk ev d) = users d @ ext"
proof (cases "handle gen chk (snd ev) \<lparr>db = d, session = fst ev, flashes = []\<rparr>")
  case (Inl e)
  then show ?thesis by (simp add: step_def)
next
  case (Inr p)
  obtain r s' where p: "p = (r, s')" by (cases p)
  have "\<exists>ext. users (db s') = users d @ ext"
    using users_handle[of gen chk "snd ev" "\<lparr>db = d, session = fst ev, flashes = []\<rparr>" r s'] Inr p
    by simp
  then show ?thesis using Inr p by (simp add: step_def)
qed

lemma users_run: "\<exists>ext. users (run gen chk evs d) = users d @ ext"
proof (induction evs arbitrary: d)
  case Nil
  show ?case by (simp add: run_def)
next
  case (Cons ev evs)
  obtain e1 where e1: "users (step gen chk ev d) = users d @ e1"
    using users_step by blast
  obtain e2 where e2: "users (run gen chk evs (step gen chk ev d)) = users (step gen chk ev d) @ e2"
    using Cons.IH by blast
  have "run gen chk (ev # evs) d = run gen chk evs (step gen chk ev d)"
    by (simp add: run_def)
  then show ?case using e1 e2 by simp
qed

lemma find_app:
  "find P (xs @ ys) = (case find P xs of None \<Rightarrow> find P ys | Some x \<Rightarrow> Some x)"
  by (induction xs) simp_all

lemma first_by_email_extends:
  assumes "first_by_email d e = Some u" and "users d' = users d @ ext"
  shows "first_by_email d' e = Some u"
  using assms by (simp add: first_by_email_def find_app)

lemma register_new_row:
  assumes "register gen (Some f) salt s = Inr (Redirect Get_all_posts_page, s1)"
  shows "first_by_email (db s1) (reg_email f) =
           Some \<lparr>user_id = next_id (map user_id (users (db s))), user_email = reg_email f,
                 user_password = gen salt (reg_password f), user_name = reg_name f\<rparr>"
proof (cases "first_by_email (db s) (reg_email f)")
  case (Some u)
  then show ?thesis using assms by (simp add: register_def)
next
  case None
  then have "db s1 = (db s)\<lparr>users := users (db s) @
               [\<lparr>user_id = next_id (map user_id (users (db s))), user_email = reg_email f,
                 user_password = gen salt (reg_password f), user_name = reg_name f\<rparr>]\<rparr>"
    using assms by (auto simp: register_def Let_def login_user_def)
  then show ?thesis using None by (simp add: first_by_email_def find_app)
qed

lemma register_empty:
  "register toy_hash (Some reg_form) ''ab12'' \<lparr>db = empty_db, session = None, flashes = []\<rparr> =
     Inr (Redirect Get_all_posts_page,
          \<lparr>db = \<lparr>users = [admin_row], blog_posts = [], comments = []\<rparr>,
           session = Some 1, flashes = []\<rparr>)"
  by (simp add: register_def first_by_email_def empty_db_def next_id_def
      login_user_def reg_form_def sample_defs)


text \<open>
  C5: let a registration POST with email e and password p succeed (it redirects to
  the post list), and let the library's check accept the digest made from p. Then
  after any further sequence of requests the row found for e is still the registered
  one, a login POST with (e, p) from any session redirects to the post list with the
  session set to that row's id, and a login POST with e and a password the check
  rejects redirects to the login page with the session as it was and one message
  appended to the flash queue.
\<close>

theorem registered_user_logs_in:
  assumes "register gen (Some f) salt s = Inr (Redirect Get_all_posts_page, s1)"
    and "chk (gen salt (reg_password f)) (reg_password f)"
    and "d = run gen chk evs (db s1)"
  shows "first_by_email d (reg_email f) =
           Some \<lparr>user_id = next_id (map user_id (users (db s))), user_email = reg_email f,
                 user_password = gen salt (reg_password f), user_name = reg_name f\<rparr> \<and>
         login chk (Some \<lparr>login_email = reg_email f, login_password = reg_password f\<rparr>)
             \<lparr>db = d, session = c, flashes = fl\<rparr> =
           Inr (Redirect Get_all_posts_page,
                \<lparr>db = d, session = Some (next_id (map user_id (users (db s)))), flashes = fl\<rparr>) \<and>
         (\<forall>q. \<not> chk (gen salt (reg_password f)) q \<longrightarrow>
            login chk (Some \<lparr>login_email = reg_email f, login_password = q\<rparr>)
                \<lparr>db = d, session = c, flashes = fl\<rparr> =
              Inr (Redirect Login_page,
                   \<lparr>db = d, session = c,
                    flashes = fl @ [''Password incorrect, please try again'']\<rparr>))"
proof -
  obtain ext where "users d = users (db s1) @ ext"
    using users_run[of gen chk evs "db s1"] assms(3) by auto
  then have row: "first_by_email d (reg_email f) =
           Some \<lparr>user_id = next_id (map user_id (users (db s))), user_email = reg_email f,
                 user_password = gen salt (reg_password f), user_name = reg_name f\<rparr>"
    using first_by_email_extends[OF register_new_row[OF assms(1)]] by blast
  show ?thesis using row assms(2) by (simp add: login_def login_user_def flash_def)
qed


theorem registered_user_logs_in_witness:
  "login toy_check (Some \<lparr>login_email = ''a@x.com'', login_password = ''pw1''\<rparr>)
       \<lparr>db = run toy_hash toy_check sample_trace empty_db, session = None, flashes = []\<rparr> =
     Inr (Redirect Get_all_posts_page,
          \<lparr>db = run toy_hash toy_check sample_trace empty_db, session = Some 1, flashes = []\<rparr>) \<and>
   login toy_check (Some \<lparr>login_email = ''a@x.com'', login_password = ''zz''\<rparr>)
       \<lparr>db = run toy_hash toy_check sample_trace empty_db, session = None, flashes = []\<rparr> =
     Inr (Redirect Login_page,
          \<lparr>db = run toy_hash toy_check sample_trace empty_db, session = None,
           flashes = [''Password incorrect, please try again'']\<rparr>)"
proof -
  have h2: "toy_check (toy_hash ''ab12'' (reg_password reg_form)) (reg_password reg_form)"
    by (simp add: reg_form_def toy_hash_def toy_check_def)
  have h3: "run toy_hash toy_check sample_trace empty_db =
      run toy_hash toy_check [(Some 1, Show_post 7 (Some ''hi''))]
        (db \<lparr>db = \<lparr>users = [admin_row], blog_posts = [], comments = []\<rparr>,
           session = Some 1, flashes = []\<rparr>)"
    by (simp add: run_def sample_trace_def sample_step1)
  have n: "\<not> toy_check (toy_hash ''ab12'' (reg_password reg_form)) ''zz''"
    by (simp add: reg_form_def toy_hash_def toy_check_def)
  have i: "next_id (map user_id (users (db \<lparr>db = empty_db, session = None, flashes = []\<rparr>))) = 1"
    by (simp add: empty_db_def next_id_def)
  have f: "reg_email reg_form = ''a@x.com''" "reg_password reg_form = ''pw1''"
    by (simp_all add: reg_form_def)
  from registered_user_logs_in[OF register_empty h2 h3, of None "[]"] n
  show ?thesis unfolding i f by simp
qed

end
